theory Spec2Isabelle
  imports Main "HOL-Library.Word"
begin

section \<open>hardkeys.c: the zoom-key grab flag of a Maemo window\<close>

text \<open>
  The module has one global, \<open>PyGObject_Type\<close>, set by \<open>inithardkeys\<close>, and one
  method, \<open>hardkeys_grab_zoom_keys\<close>, which parses its argument tuple with the
  format \<open>"O!i"\<close> and then sends one \<open>XChangeProperty\<close> request. The embedding
  keeps that shape: a record for the process state (the global and the display
  connections), the argument tuple as a list of Python objects, and a result that is a
  returned object, a raised exception, or undefined behaviour of the C code (a NULL or
  mistyped pointer that the source dereferences without a check).

  Data model of the target: Maemo devices and the Maemo SDK are ILP32, so \<open>int\<close>,
  \<open>long\<close> and \<open>unsigned long\<close> are 32 bits wide; a Python 2 \<open>int\<close> object holds
  a C \<open>long\<close>.
\<close>

subsection \<open>Python objects and types\<close>

text \<open>
  A type object: the address it lives at, its name and its \<open>tp_base\<close> (NULL for
  \<open>object\<close>). A \<open>PyTypeObject *\<close> is compared as a pointer, so two type objects are
  the same type when they have the same address, whatever they are called.
\<close>

datatype pytype = PyTypeObject (tp_addr: nat) (tp_name: string) (tp_base: "pytype option")

text \<open>
  \<open>PyType_IsSubtype a b\<close> of the Python runtime: walk from \<open>a\<close> along \<open>tp_base\<close>
  until the pointer \<open>b\<close> is met.
\<close>

fun PyType_IsSubtype :: "pytype \<Rightarrow> pytype \<Rightarrow> bool" where
  "PyType_IsSubtype (PyTypeObject p n None) b = (p = tp_addr b)"
| "PyType_IsSubtype (PyTypeObject p n (Some a')) b =
     (p = tp_addr b \<or> PyType_IsSubtype a' b)"

definition PyBaseObject_Type :: pytype where
  "PyBaseObject_Type = PyTypeObject 1 ''object'' None"

definition PyInt_Type :: pytype where
  "PyInt_Type = PyTypeObject 2 ''int'' (Some PyBaseObject_Type)"

definition PyBool_Type :: pytype where
  "PyBool_Type = PyTypeObject 3 ''bool'' (Some PyInt_Type)"

definition PyLong_Type :: pytype where
  "PyLong_Type = PyTypeObject 4 ''long'' (Some PyBaseObject_Type)"

definition PyString_Type :: pytype where
  "PyString_Type = PyTypeObject 5 ''str'' (Some PyBaseObject_Type)"

definition PyNone_Type :: pytype where
  "PyNone_Type = PyTypeObject 6 ''NoneType'' (Some PyBaseObject_Type)"

text \<open>
  The native side of a \<open>PyGObject\<close> wrapper. \<open>GdkWindow\<close> carries the display
  connection and the X window id that \<open>gdk_x11_drawable_get_xdisplay\<close> and
  \<open>GDK_WINDOW_XID\<close> read; \<open>GtkWidget.window\<close> is NULL until the widget is realized.
\<close>

record gdkwindow =
  xdisplay :: nat
  xid :: nat

record gtkwidget =
  window :: "gdkwindow option"

datatype gobject = GtkWidget gtkwidget | GObject_other

text \<open>
  The objects a caller can put into the argument tuple: \<open>None\<close>, \<open>bool\<close>,
  \<open>int\<close> (a C \<open>long\<close>), \<open>long\<close> (unbounded), \<open>str\<close>, and a \<open>PyGObject\<close>
  wrapper with its Python type and its \<open>obj\<close> pointer.
\<close>

datatype pyobject =
    PyNone
  | PyBoolObj bool
  | PyIntObj "32 word"
  | PyLongObj int
  | PyStringObj string
  | PyGObject (ob_type: pytype) (obj: gobject)

fun Py_TYPE :: "pyobject \<Rightarrow> pytype" where
  "Py_TYPE PyNone = PyNone_Type"
| "Py_TYPE (PyBoolObj b) = PyBool_Type"
| "Py_TYPE (PyIntObj n) = PyInt_Type"
| "Py_TYPE (PyLongObj n) = PyLong_Type"
| "Py_TYPE (PyStringObj s) = PyString_Type"
| "Py_TYPE (PyGObject t g) = t"

subsection \<open>Argument parsing: \<open>PyArg_ParseTuple(args, "O!i", type, &py_widget, &grab)\<close>\<close>

text \<open>
  The exceptions the parser sets. Both the wrong number of arguments and an argument of
  the wrong type are a Python \<open>TypeError\<close>; the reason is kept to tell them apart.
\<close>

datatype type_error_reason = Arg_count nat | Arg_mismatch nat

datatype pyexc = TypeError type_error_reason | OverflowError

definition LONG_MAX :: int where
  "LONG_MAX = 2147483647"

definition LONG_MIN :: int where
  "LONG_MIN = - 2147483648"

text \<open>
  The format unit \<open>i\<close>: the argument is read with \<open>PyInt_AsLong\<close> and, when the
  value lies between \<open>INT_MIN\<close> and \<open>INT_MAX\<close>, stored into a C \<open>int\<close>. A
  \<open>bool\<close> is an \<open>int\<close> object with value 1 or 0; a \<open>long\<close> that does not fit
  a C \<open>long\<close> raises \<open>OverflowError\<close> (and since \<open>int\<close> and \<open>long\<close> have the
  same width here, what fits a \<open>long\<close> fits the \<open>int\<close>); an object without an
  integer conversion raises \<open>TypeError\<close>.
\<close>

fun convert_i :: "pyobject \<Rightarrow> pyexc + 32 word" where
  "convert_i (PyBoolObj b) = Inr (if b then 1 else 0)"
| "convert_i (PyIntObj n) = Inr n"
| "convert_i (PyLongObj n) =
     (if n > LONG_MAX \<or> n < LONG_MIN then Inl OverflowError else Inr (word_of_int n))"
| "convert_i PyNone = Inl (TypeError (Arg_mismatch 2))"
| "convert_i (PyStringObj s) = Inl (TypeError (Arg_mismatch 2))"
| "convert_i (PyGObject t g) = Inl (TypeError (Arg_mismatch 2))"

datatype parse_result =
    Parsed pyobject "32 word"
  | ParseError pyexc
  | ParseUndefined

text \<open>
  The parser first compares the length of the tuple with the number of format units,
  then converts the arguments from left to right. The unit \<open>O!\<close> accepts an object
  whose type is a subtype of the type passed along; that type pointer is the module's
  global and is dereferenced without a NULL check.
\<close>

definition PyArg_ParseTuple_O_i :: "pyobject list \<Rightarrow> pytype option \<Rightarrow> parse_result" where
  "PyArg_ParseTuple_O_i args type =
     (case args of
        [a, b] \<Rightarrow>
          (case type of
             None \<Rightarrow> ParseUndefined
           | Some t \<Rightarrow>
               if \<not> PyType_IsSubtype (Py_TYPE a) t then ParseError (TypeError (Arg_mismatch 1))
               else (case convert_i b of
                       Inl e \<Rightarrow> ParseError e
                     | Inr grab \<Rightarrow> Parsed a grab))
      | _ \<Rightarrow> ParseError (TypeError (Arg_count (length args))))"

subsection \<open>The display server\<close>

text \<open>
  A property is a type atom, a format (8, 16 or 32) and a list of items. The server
  holds the atom table (atom \<open>k\<close> is the \<open>k\<close>-th name, counted from 1) and, for each
  existing window, its properties by atom.
\<close>

record xproperty =
  prop_type :: nat
  prop_format :: nat
  prop_data :: "32 word list"

record xserver =
  atoms :: "string list"
  windows :: "nat \<rightharpoonup> (nat \<rightharpoonup> xproperty)"

definition XA_INTEGER :: nat where
  "XA_INTEGER = 19"

datatype propmode = PropModeReplace | PropModePrepend | PropModeAppend

datatype xerror = BadValue | BadWindow | BadMatch

fun find_atom :: "string list \<Rightarrow> string \<Rightarrow> nat option" where
  "find_atom [] name = None"
| "find_atom (a # as) name =
     (if a = name then Some 1 else map_option (\<lambda>k. k + 1) (find_atom as name))"

text \<open>
  \<open>XInternAtom(dpy, name, only_if_exists)\<close>: the atom of a name; a name the server
  does not know yet gets the next atom, unless \<open>only_if_exists\<close>, where the answer
  is \<open>None\<close> (0).
\<close>

definition XInternAtom :: "xserver \<Rightarrow> string \<Rightarrow> bool \<Rightarrow> nat \<times> xserver" where
  "XInternAtom srv name only_if_exists =
     (case find_atom (atoms srv) name of
        Some a \<Rightarrow> (a, srv)
      | None \<Rightarrow>
          if only_if_exists then (0, srv)
          else (length (atoms srv) + 1, srv\<lparr>atoms := atoms srv @ [name]\<rparr>))"

text \<open>
  \<open>XChangeProperty(dpy, w, property, type, format, mode, data, nelements)\<close>, with
  \<open>data\<close> and \<open>nelements\<close> as one list. The request fails, and changes nothing, on
  a format other than 8, 16 or 32, on a window the server does not have, and on
  prepending or appending to a property of another type or format. The error reaches
  the client's error handler, not the caller of \<open>XChangeProperty\<close>.
\<close>

definition XChangeProperty ::
  "xserver \<Rightarrow> nat \<Rightarrow> nat \<Rightarrow> nat \<Rightarrow> nat \<Rightarrow> propmode \<Rightarrow> 32 word list \<Rightarrow> xerror option \<times> xserver"
where
  "XChangeProperty srv w property type format mode data =
     (if format \<noteq> 8 \<and> format \<noteq> 16 \<and> format \<noteq> 32 then (Some BadValue, srv)
      else case windows srv w of
        None \<Rightarrow> (Some BadWindow, srv)
      | Some props \<Rightarrow>
          (let store = (\<lambda>items.
                 (None, srv\<lparr>windows := (windows srv)(w \<mapsto> props(property \<mapsto>
                    \<lparr>prop_type = type, prop_format = format, prop_data = items\<rparr>))\<rparr>))
           in case mode of
                PropModeReplace \<Rightarrow> store data
              | PropModePrepend \<Rightarrow>
                  (case props property of
                     None \<Rightarrow> store data
                   | Some p \<Rightarrow>
                       if prop_type p = type \<and> prop_format p = format
                       then store (data @ prop_data p) else (Some BadMatch, srv))
              | PropModeAppend \<Rightarrow>
                  (case props property of
                     None \<Rightarrow> store data
                   | Some p \<Rightarrow>
                       if prop_type p = type \<and> prop_format p = format
                       then store (prop_data p @ data) else (Some BadMatch, srv))))"

text \<open>What another client reads back: the property of a window under an atom.\<close>

definition XGetWindowProperty :: "xserver \<Rightarrow> nat \<Rightarrow> nat \<Rightarrow> xproperty option" where
  "XGetWindowProperty srv w property =
     (case windows srv w of None \<Rightarrow> None | Some props \<Rightarrow> props property)"

subsection \<open>The module\<close>

text \<open>
  The process state the module touches: its global \<open>PyGObject_Type\<close> (NULL at
  program start) and the display connections, by \<open>Display\<close> pointer.
\<close>

record process_state =
  PyGObject_Type :: "pytype option"
  displays :: "nat \<rightharpoonup> xserver"

text \<open>
  The interpreter at load time: whether the two C APIs that \<open>init_pygobject()\<close> and
  \<open>init_pygtk()\<close> fetch are there (each macro returns from \<open>inithardkeys\<close> when its
  API is missing), and the importable modules with their type-valued attributes.
\<close>

record interpreter =
  pygobject_api :: bool
  pygtk_api :: bool
  modules :: "string \<rightharpoonup> (string \<rightharpoonup> pytype)"




text \<open>
  \<open>GTK_WIDGET(obj)\<close> is a cast; the fields of a \<open>GtkWidget\<close> exist only when the
  object is one.
\<close>

fun GTK_WIDGET :: "gobject \<Rightarrow> gtkwidget option" where
  "GTK_WIDGET (GtkWidget w) = Some w"
| "GTK_WIDGET GObject_other = None"

definition gdk_x11_drawable_get_xdisplay :: "gdkwindow \<Rightarrow> nat" where
  "gdk_x11_drawable_get_xdisplay gw = xdisplay gw"

definition GDK_WINDOW_XID :: "gdkwindow \<Rightarrow> nat" where
  "GDK_WINDOW_XID gw = xid gw"

datatype call_result =
    Return pyobject process_state
  | Raise pyexc process_state
  | Undefined

definition zoom_key_name :: string where
  "zoom_key_name = ''_HILDON_ZOOM_KEY_ATOM''"

text \<open>
  The method. After the parse there is no further check: the wrapped object is cast to
  a widget, its \<open>window\<close> field is read, and both are used as they are. The result
  of \<open>XChangeProperty\<close> is dropped and \<open>Py_None\<close> is returned.
\<close>

definition hardkeys_grab_zoom_keys :: "process_state \<Rightarrow> pyobject list \<Rightarrow> call_result" where
  "hardkeys_grab_zoom_keys st args =
     (case PyArg_ParseTuple_O_i args (PyGObject_Type st) of
        ParseUndefined \<Rightarrow> Undefined
      | ParseError e \<Rightarrow> Raise e st
      | Parsed py_widget grab \<Rightarrow>
          (case py_widget of
             PyGObject t g \<Rightarrow>
               (case GTK_WIDGET g of
                  None \<Rightarrow> Undefined
                | Some widget \<Rightarrow>
                    (case window widget of
                       None \<Rightarrow> Undefined
                     | Some gw \<Rightarrow>
                         (let dpy = gdk_x11_drawable_get_xdisplay gw;
                              win = GDK_WINDOW_XID gw
                          in case displays st dpy of
                               None \<Rightarrow> Undefined
                             | Some srv \<Rightarrow>
                                 (let (atom, srv1) = XInternAtom srv zoom_key_name False;
                                      val = (if grab \<noteq> 0 then 1 else 0);
                                      (atom2, srv2) = XInternAtom srv1 zoom_key_name False;
                                      (status, srv3) =
                                         XChangeProperty srv2 win atom2 XA_INTEGER 32
                                           PropModeReplace [val]
                                  in Return PyNone (st\<lparr>displays := (displays st)(dpy \<mapsto> srv3)\<rparr>)))))
           | _ \<Rightarrow> Undefined))"

text \<open>
  The observation the claims speak of: the property named \<open>_HILDON_ZOOM_KEY_ATOM\<close>
  on a window, as a client of the window's display reads it.
\<close>

definition zoom_key_property :: "process_state \<Rightarrow> gdkwindow \<Rightarrow> xproperty option" where
  "zoom_key_property st gw =
     (case displays st (xdisplay gw) of
        None \<Rightarrow> None
      | Some srv \<Rightarrow>
          (case find_atom (atoms srv) zoom_key_name of
             None \<Rightarrow> None
           | Some a \<Rightarrow> XGetWindowProperty srv (xid gw) a))"

text \<open>
  The display server after the three Xlib calls of the method (the two
  \<open>XInternAtom\<close> and the \<open>XChangeProperty\<close>), as one function of the server
  before, the window and the parsed flag; \<open>call_succeeds\<close> below proves that this is
  what the method leaves behind.
\<close>

definition zoom_key_write :: "xserver \<Rightarrow> nat \<Rightarrow> 32 word \<Rightarrow> xserver" where
  "zoom_key_write srv win grab =
     snd (XChangeProperty (snd (XInternAtom srv zoom_key_name False)) win
            (fst (XInternAtom srv zoom_key_name False)) XA_INTEGER 32 PropModeReplace
            [if grab \<noteq> 0 then 1 else 0])"

subsection \<open>Concrete objects\<close>

text \<open>
  The types of the pygtk hierarchy that matter here (\<open>gtk.Widget\<close> derives from
  \<open>gobject.GObject\<close> through \<open>gtk.Object\<close>); a realized widget on window 7 of
  display 0, with a server that has the window but not yet the atom, and one that has
  lost the window; a second widget on window 9 of display 1, where the named property
  already holds a string; the states the two displays are in after a call with
  \<open>True\<close>; a widget that is not realized; a second type object that has the name
  and the base of \<open>gobject.GObject\<close> but another address; an interpreter with the
  \<open>gobject\<close> module, one without it, one where only the module's own import fails,
  and one that lacks the pygtk API; and the process before initialization.
\<close>

definition GObject_Type :: pytype where
  "GObject_Type = PyTypeObject 10 ''gobject.GObject'' (Some PyBaseObject_Type)"

definition GtkWidget_Type :: pytype where
  "GtkWidget_Type =
     PyTypeObject 12 ''gtk.Widget'' (Some (PyTypeObject 11 ''gtk.Object'' (Some GObject_Type)))"

definition ex_window :: gdkwindow where
  "ex_window = \<lparr>xdisplay = 0, xid = 7\<rparr>"

definition ex_widget :: pyobject where
  "ex_widget = PyGObject GtkWidget_Type (GtkWidget \<lparr>window = Some ex_window\<rparr>)"

definition ex_widget_unrealized :: pyobject where
  "ex_widget_unrealized = PyGObject GtkWidget_Type (GtkWidget \<lparr>window = None\<rparr>)"

definition GObject_lookalike_Type :: pytype where
  "GObject_lookalike_Type = PyTypeObject 20 ''gobject.GObject'' (Some PyBaseObject_Type)"

definition ex_server :: xserver where
  "ex_server = \<lparr>atoms = [''WM_NAME''], windows = [7 \<mapsto> Map.empty]\<rparr>"

definition ex_state :: process_state where
  "ex_state = \<lparr>PyGObject_Type = Some GObject_Type, displays = [0 \<mapsto> ex_server]\<rparr>"

definition ex_server_no_window :: xserver where
  "ex_server_no_window = \<lparr>atoms = [''WM_NAME''], windows = Map.empty\<rparr>"

definition ex_state_no_window :: process_state where
  "ex_state_no_window =
     \<lparr>PyGObject_Type = Some GObject_Type, displays = [0 \<mapsto> ex_server_no_window]\<rparr>"

definition ex_state_after :: process_state where
  "ex_state_after =
     \<lparr>PyGObject_Type = Some GObject_Type,
      displays = [0 \<mapsto>
        \<lparr>atoms = [''WM_NAME'', ''_HILDON_ZOOM_KEY_ATOM''],
         windows = [7 \<mapsto> [2 \<mapsto> \<lparr>prop_type = 19, prop_format = 32, prop_data = [1]\<rparr>]]\<rparr>]\<rparr>"

definition ex_window_prior :: gdkwindow where
  "ex_window_prior = \<lparr>xdisplay = 1, xid = 9\<rparr>"

definition ex_widget_prior :: pyobject where
  "ex_widget_prior = PyGObject GtkWidget_Type (GtkWidget \<lparr>window = Some ex_window_prior\<rparr>)"

definition ex_server_prior :: xserver where
  "ex_server_prior =
     \<lparr>atoms = [''WM_NAME'', ''_HILDON_ZOOM_KEY_ATOM''],
      windows = [9 \<mapsto> [2 \<mapsto> \<lparr>prop_type = 31, prop_format = 8, prop_data = [104, 105]\<rparr>]]\<rparr>"

definition ex_state_prior :: process_state where
  "ex_state_prior = \<lparr>PyGObject_Type = Some GObject_Type, displays = [1 \<mapsto> ex_server_prior]\<rparr>"

definition ex_state_prior_after :: process_state where
  "ex_state_prior_after =
     \<lparr>PyGObject_Type = Some GObject_Type,
      displays = [1 \<mapsto>
        \<lparr>atoms = [''WM_NAME'', ''_HILDON_ZOOM_KEY_ATOM''],
         windows = [9 \<mapsto> [2 \<mapsto> \<lparr>prop_type = 19, prop_format = 32, prop_data = [1]\<rparr>]]\<rparr>]\<rparr>"

definition ex_interpreter :: interpreter where
  "ex_interpreter =
     \<lparr>pygobject_api = True, pygtk_api = True,
      modules = [''gobject'' \<mapsto> [''GObject'' \<mapsto> GObject_Type]]\<rparr>"

definition ex_interpreter_no_gobject :: interpreter where
  "ex_interpreter_no_gobject =
     \<lparr>pygobject_api = False, pygtk_api = False, modules = Map.empty\<rparr>"

definition ex_interpreter_import_fails :: interpreter where
  "ex_interpreter_import_fails =
     \<lparr>pygobject_api = True, pygtk_api = True, modules = Map.empty\<rparr>"

definition ex_interpreter_no_pygtk :: interpreter where
  "ex_interpreter_no_pygtk =
     \<lparr>pygobject_api = True, pygtk_api = False,
      modules = [''gobject'' \<mapsto> [''GObject'' \<mapsto> GObject_Type]]\<rparr>"

definition initial_state :: process_state where
  "initial_state = \<lparr>PyGObject_Type = None, displays = [0 \<mapsto> ex_server]\<rparr>"

section \<open>Properties\<close>

subsection \<open>The atom table\<close>

lemma find_atom_append_new:
  "find_atom names name = None \<Longrightarrow> find_atom (names @ [name]) name = Some (length names + 1)"
  by (induction names) (auto split: if_splits)

lemma XInternAtom_known:
  "find_atom (atoms srv) name = Some a \<Longrightarrow> XInternAtom srv name b = (a, srv)"
  by (simp add: XInternAtom_def)

lemma XInternAtom_finds:
  "find_atom (atoms (snd (XInternAtom srv name False))) name = Some (fst (XInternAtom srv name False))"
  by (cases "find_atom (atoms srv) name") (simp_all add: XInternAtom_def find_atom_append_new)

lemma XInternAtom_again:
  "XInternAtom (snd (XInternAtom srv name False)) name False = XInternAtom srv name False"
  by (metis XInternAtom_finds XInternAtom_known prod.collapse)

lemma XInternAtom_windows:
  "windows (snd (XInternAtom srv name b)) = windows srv"
  by (simp add: XInternAtom_def split: option.splits)

subsection \<open>The property write\<close>

lemma GTK_WIDGET_Some: "GTK_WIDGET g = Some w \<longleftrightarrow> g = GtkWidget w"
  by (cases g) auto

lemma XChangeProperty_atoms:
  "atoms (snd (XChangeProperty srv w p t f m d)) = atoms srv"
  by (simp add: XChangeProperty_def Let_def split: option.splits propmode.splits)

lemma XChangeProperty_no_window:
  "windows srv w = None \<Longrightarrow> XChangeProperty srv w p t 32 m d = (Some BadWindow, srv)"
  by (simp add: XChangeProperty_def)

lemma XChangeProperty_replace:
  "windows srv w = Some props \<Longrightarrow>
   XChangeProperty srv w p t 32 PropModeReplace d =
     (None, srv\<lparr>windows := (windows srv)(w \<mapsto> props(p \<mapsto>
        \<lparr>prop_type = t, prop_format = 32, prop_data = d\<rparr>))\<rparr>)"
  by (simp add: XChangeProperty_def)

lemma XChangeProperty_replace_twice:
  "snd (XChangeProperty (snd (XChangeProperty srv w p t 32 PropModeReplace d)) w p t 32
          PropModeReplace d) = snd (XChangeProperty srv w p t 32 PropModeReplace d)"
  by (cases "windows srv w") (simp_all add: XChangeProperty_no_window XChangeProperty_replace)

lemma call_succeeds:
  assumes "PyArg_ParseTuple_O_i args (PyGObject_Type st) = Parsed (PyGObject ty (GtkWidget wd)) grab"
    and "window wd = Some gw"
    and "displays st (xdisplay gw) = Some srv"
  shows "hardkeys_grab_zoom_keys st args =
     Return PyNone (st\<lparr>displays := (displays st)(xdisplay gw \<mapsto> zoom_key_write srv (xid gw) grab)\<rparr>)"
  using assms XInternAtom_again [of srv zoom_key_name]
  by (simp add: hardkeys_grab_zoom_keys_def zoom_key_write_def
      gdk_x11_drawable_get_xdisplay_def GDK_WINDOW_XID_def split_beta Let_def)

lemma parse_two:
  assumes "PyGObject_Type st = Some t" and "PyType_IsSubtype ty t" and "convert_i b = Inr grab"
  shows "PyArg_ParseTuple_O_i [PyGObject ty g, b] (PyGObject_Type st) = Parsed (PyGObject ty g) grab"
  using assms by (simp add: PyArg_ParseTuple_O_i_def)

lemma call_returns:
  assumes "hardkeys_grab_zoom_keys st args = Return r st'"
  shows "\<exists>ty wd grab gw srv.
     PyArg_ParseTuple_O_i args (PyGObject_Type st) = Parsed (PyGObject ty (GtkWidget wd)) grab \<and>
     window wd = Some gw \<and> displays st (xdisplay gw) = Some srv"
  using assms
  by (auto simp add: hardkeys_grab_zoom_keys_def GTK_WIDGET_Some
      gdk_x11_drawable_get_xdisplay_def GDK_WINDOW_XID_def split_beta Let_def
      split: option.splits pyobject.splits parse_result.splits)

lemma zoom_key_write_atoms:
  "atoms (zoom_key_write srv win grab) =
     (if find_atom (atoms srv) zoom_key_name = None then atoms srv @ [zoom_key_name] else atoms srv)"
  by (auto simp add: zoom_key_write_def XChangeProperty_atoms XInternAtom_def)

lemma zoom_key_write_find_atom:
  "find_atom (atoms (zoom_key_write srv win grab)) zoom_key_name = Some (fst (XInternAtom srv zoom_key_name False))"
  by (simp add: zoom_key_write_def XChangeProperty_atoms XInternAtom_finds)

lemma zoom_key_write_property:
  assumes "windows srv win = Some props"
  shows "XGetWindowProperty (zoom_key_write srv win grab) win (fst (XInternAtom srv zoom_key_name False)) =
     Some \<lparr>prop_type = XA_INTEGER, prop_format = 32, prop_data = [if grab \<noteq> 0 then 1 else 0]\<rparr>"
  using assms
  by (simp add: zoom_key_write_def XGetWindowProperty_def XChangeProperty_replace XInternAtom_windows)

lemma zoom_key_write_no_window:
  assumes "windows srv win = None"
  shows "zoom_key_write srv win grab = snd (XInternAtom srv zoom_key_name False)"
  using assms by (simp add: zoom_key_write_def XChangeProperty_no_window XInternAtom_windows)

lemma zoom_key_write_other:
  assumes "w \<noteq> win \<or> p \<noteq> fst (XInternAtom srv zoom_key_name False)"
  shows "XGetWindowProperty (zoom_key_write srv win grab) w p = XGetWindowProperty srv w p"
proof (cases "windows srv win")
  case None
  then show ?thesis
    by (simp add: zoom_key_write_no_window XGetWindowProperty_def XInternAtom_windows)
next
  case (Some props)
  then show ?thesis using assms
    by (auto simp add: zoom_key_write_def XGetWindowProperty_def XChangeProperty_replace XInternAtom_windows)
qed

lemma zoom_key_write_dom:
  "dom (windows (zoom_key_write srv win grab)) = dom (windows srv)"
proof (cases "windows srv win")
  case None
  then show ?thesis by (simp add: zoom_key_write_no_window XInternAtom_windows)
next
  case (Some props)
  then show ?thesis
    by (auto simp add: zoom_key_write_def XChangeProperty_replace XInternAtom_windows)
qed

lemma zoom_key_write_twice:
  "zoom_key_write (zoom_key_write srv win grab) win grab = zoom_key_write srv win grab"
proof -
  let ?a = "fst (XInternAtom srv zoom_key_name False)"
  have "XInternAtom (zoom_key_write srv win grab) zoom_key_name False = (?a, zoom_key_write srv win grab)"
    by (rule XInternAtom_known) (rule zoom_key_write_find_atom)
  then show ?thesis
    by (simp add: zoom_key_write_def [of "zoom_key_write srv win grab"])
       (simp add: zoom_key_write_def XChangeProperty_replace_twice)
qed

lemma zoom_key_property_after:
  assumes "displays st (xdisplay gw) = Some srv"
  shows "zoom_key_property (st\<lparr>displays := (displays st)(xdisplay gw \<mapsto> zoom_key_write srv (xid gw) grab)\<rparr>) gw =
     XGetWindowProperty (zoom_key_write srv (xid gw) grab) (xid gw) (fst (XInternAtom srv zoom_key_name False))"
  by (simp add: zoom_key_property_def zoom_key_write_find_atom)

lemmas ex_defs = ex_interpreter_no_pygtk_def ex_widget_unrealized_def GObject_lookalike_Type_def
  ex_interpreter_import_fails_def ex_state_after_def ex_window_prior_def ex_widget_prior_def ex_server_prior_def
  ex_state_prior_def ex_state_prior_after_def ex_interpreter_def ex_interpreter_no_gobject_def
  initial_state_def GObject_Type_def GtkWidget_Type_def ex_window_def ex_widget_def ex_server_def
  ex_state_def ex_state_no_window_def ex_server_no_window_def PyBaseObject_Type_def PyInt_Type_def PyBool_Type_def
  PyLong_Type_def PyString_Type_def PyNone_Type_def

subsection \<open>Facts used by several claims\<close>

lemma word_of_int_long_zero:
  assumes "LONG_MIN \<le> k" and "k \<le> LONG_MAX"
  shows "(word_of_int k = (0 :: 32 word)) \<longleftrightarrow> k = 0"
proof
  assume "word_of_int k = (0 :: 32 word)"
  then have "(2 :: int) ^ 32 dvd k"
    by (simp add: word_of_int_eq_0_iff)
  then obtain q where q: "k = 2 ^ 32 * q" ..
  with assms have "q = 0"
    by (simp add: LONG_MIN_def LONG_MAX_def)
  with q show "k = 0" by simp
qed simp

lemma ex_call:
  "hardkeys_grab_zoom_keys ex_state [ex_widget, PyBoolObj True] = Return PyNone ex_state_after"
  by (simp add: hardkeys_grab_zoom_keys_def PyArg_ParseTuple_O_i_def XInternAtom_def
      XChangeProperty_def gdk_x11_drawable_get_xdisplay_def GDK_WINDOW_XID_def
      zoom_key_name_def XA_INTEGER_def ex_defs numeral_2_eq_2 [symmetric])

lemma ex_call_prior:
  "hardkeys_grab_zoom_keys ex_state_prior [ex_widget_prior, PyBoolObj True] =
     Return PyNone ex_state_prior_after"
  by (simp add: hardkeys_grab_zoom_keys_def PyArg_ParseTuple_O_i_def XInternAtom_def
      XChangeProperty_def gdk_x11_drawable_get_xdisplay_def GDK_WINDOW_XID_def
      zoom_key_name_def XA_INTEGER_def ex_defs numeral_2_eq_2 [symmetric])




section \<open>The claims\<close>

text \<open>
  Claim C1. Let the first argument wrap a realized widget (its \<open>window\<close> is set, and
  the window exists on its display) whose Python type passes the check against the
  stored type, and let \<open>grab\<close> be \<open>True\<close> or \<open>False\<close>. Then the call returns,
  and afterwards the property named \<open>_HILDON_ZOOM_KEY_ATOM\<close> on the widget's window
  holds the integer 1 if \<open>grab\<close> is true and 0 if it is false.
\<close>
theorem grab_zoom_keys_sets_flag:
  assumes "PyGObject_Type st = Some t" and "PyType_IsSubtype ty t"
    and "window wd = Some gw" and "displays st (xdisplay gw) = Some srv"
    and "windows srv (xid gw) = Some props"
  shows "\<exists>st'. hardkeys_grab_zoom_keys st [PyGObject ty (GtkWidget wd), PyBoolObj grab] =
            Return PyNone st' \<and>
          zoom_key_property st' gw =
            Some \<lparr>prop_type = XA_INTEGER, prop_format = 32,
                  prop_data = [if grab then 1 else 0]\<rparr>"
proof -
  let ?g = "if grab then 1 else 0 :: 32 word"
  have p: "PyArg_ParseTuple_O_i [PyGObject ty (GtkWidget wd), PyBoolObj grab] (PyGObject_Type st) =
      Parsed (PyGObject ty (GtkWidget wd)) ?g"
    using assms(1,2) by (intro parse_two) simp_all
  have "zoom_key_property
          (st\<lparr>displays := (displays st)(xdisplay gw \<mapsto> zoom_key_write srv (xid gw) ?g)\<rparr>) gw =
        Some \<lparr>prop_type = XA_INTEGER, prop_format = 32, prop_data = [if grab then 1 else 0]\<rparr>"
    using zoom_key_write_property [OF assms(5), of ?g]
    by (simp add: zoom_key_property_after [OF assms(4)])
  with call_succeeds [OF p assms(3,4)] show ?thesis by blast
qed

theorem grab_zoom_keys_sets_flag_witness:
  "(\<exists>st'. hardkeys_grab_zoom_keys ex_state [ex_widget, PyBoolObj True] = Return PyNone st' \<and>
      zoom_key_property st' ex_window =
        Some \<lparr>prop_type = 19, prop_format = 32, prop_data = [1]\<rparr>) \<and>
   (\<exists>st'. hardkeys_grab_zoom_keys ex_state [ex_widget, PyBoolObj False] = Return PyNone st' \<and>
      zoom_key_property st' ex_window =
        Some \<lparr>prop_type = 19, prop_format = 32, prop_data = [0]\<rparr>)"
  using grab_zoom_keys_sets_flag [of ex_state GObject_Type GtkWidget_Type
      "\<lparr>window = Some ex_window\<rparr>" ex_window ex_server Map.empty True]
    grab_zoom_keys_sets_flag [of ex_state GObject_Type GtkWidget_Type
      "\<lparr>window = Some ex_window\<rparr>" ex_window ex_server Map.empty False]
  by (simp add: ex_defs XA_INTEGER_def)

text \<open>
  Claim C3. A call with fewer or more than two arguments raises the argument-count
  \<open>TypeError\<close> and leaves the process state as it was, whatever the arguments are
  and whether or not the module's type reference is set: no property is written.
\<close>
theorem grab_zoom_keys_wrong_count:
  "length args \<noteq> 2 \<Longrightarrow>
   hardkeys_grab_zoom_keys st args = Raise (TypeError (Arg_count (length args))) st"
  by (auto simp add: hardkeys_grab_zoom_keys_def PyArg_ParseTuple_O_i_def split: list.splits)

theorem grab_zoom_keys_wrong_count_witness:
  "hardkeys_grab_zoom_keys ex_state [ex_widget] = Raise (TypeError (Arg_count 1)) ex_state \<and>
   hardkeys_grab_zoom_keys ex_state [ex_widget, PyBoolObj True, PyNone] =
     Raise (TypeError (Arg_count 3)) ex_state"
  using grab_zoom_keys_wrong_count [of "[ex_widget]" ex_state]
    grab_zoom_keys_wrong_count [of "[ex_widget, PyBoolObj True, PyNone]" ex_state]
  by simp

text \<open>
  What the argument check does reject: a first argument whose type is not the stored
  type object or a subtype of it makes the call raise \<open>TypeError\<close> and leave the
  process state, and with it every property, as it was: for argument 1 when the call
  has two arguments, for the argument count otherwise.
\<close>
lemma grab_zoom_keys_rejects_non_gobject:
  assumes "PyGObject_Type st = Some t" and "\<not> PyType_IsSubtype (Py_TYPE a) t"
  shows "hardkeys_grab_zoom_keys st (a # rest) =
     Raise (TypeError (if length rest = 1 then Arg_mismatch 1
                       else Arg_count (Suc (length rest)))) st"
  using assms
  by (auto simp add: hardkeys_grab_zoom_keys_def PyArg_ParseTuple_O_i_def split: list.splits)

text \<open>
  Claim C2 says that a first argument that is not a widget raises an argument-type
  error and writes nothing. The method means to validate its widget argument, and then
  casts it with \<open>GTK_WIDGET\<close> and reads its \<open>window\<close>, but the type it hands to the
  parser is \<open>gobject.GObject\<close>. At a \<open>GObject\<close> that is not a widget the code
  departs from the claim: the argument passes the check, no error is raised, and the
  method reads the \<open>window\<close> field of an object that has none.
\<close>
theorem non_widget_gobject_passes_check:
  "GTK_WIDGET GObject_other = None \<and>
   PyArg_ParseTuple_O_i [PyGObject GObject_Type GObject_other, PyBoolObj True]
       (PyGObject_Type ex_state) = Parsed (PyGObject GObject_Type GObject_other) 1 \<and>
   hardkeys_grab_zoom_keys ex_state [PyGObject GObject_Type GObject_other, PyBoolObj True] =
     Undefined"
  by (simp add: hardkeys_grab_zoom_keys_def PyArg_ParseTuple_O_i_def ex_defs)

text \<open>
  Claim C4, as the code has it. A call that passes argument checking and whose first
  argument wraps a realized widget on a live display connection returns \<open>None\<close>, and
  the state it leaves is the one in which the method's \<open>XChangeProperty\<close> request
  has been sent, whatever that request answered. Where the window is gone from the
  server the request answers \<open>BadWindow\<close> and writes nothing, and the call returns
  \<open>None\<close> all the same: the status of the request appears nowhere in the result.
\<close>
theorem grab_zoom_keys_returns_none:
  assumes "PyArg_ParseTuple_O_i args (PyGObject_Type st) =
             Parsed (PyGObject ty (GtkWidget wd)) grab"
    and "window wd = Some gw" and "displays st (xdisplay gw) = Some srv"
  shows "hardkeys_grab_zoom_keys st args =
       Return PyNone (st\<lparr>displays := (displays st)(xdisplay gw \<mapsto>
         snd (XChangeProperty (snd (XInternAtom srv zoom_key_name False)) (xid gw)
                (fst (XInternAtom srv zoom_key_name False)) XA_INTEGER 32 PropModeReplace
                [if grab \<noteq> 0 then 1 else 0]))\<rparr>) \<and>
     (windows srv (xid gw) = None \<longrightarrow>
        fst (XChangeProperty (snd (XInternAtom srv zoom_key_name False)) (xid gw)
               (fst (XInternAtom srv zoom_key_name False)) XA_INTEGER 32 PropModeReplace
               [if grab \<noteq> 0 then 1 else 0]) = Some BadWindow \<and>
        zoom_key_property
          (st\<lparr>displays := (displays st)(xdisplay gw \<mapsto>
             snd (XChangeProperty (snd (XInternAtom srv zoom_key_name False)) (xid gw)
                    (fst (XInternAtom srv zoom_key_name False)) XA_INTEGER 32 PropModeReplace
                    [if grab \<noteq> 0 then 1 else 0]))\<rparr>) gw = None)"
proof -
  let ?st' = "st\<lparr>displays := (displays st)(xdisplay gw \<mapsto> zoom_key_write srv (xid gw) grab)\<rparr>"
  have "zoom_key_property ?st' gw = None" if "windows srv (xid gw) = None"
    unfolding zoom_key_property_after [OF assms(3)] using that
    by (simp add: zoom_key_write_no_window XGetWindowProperty_def XInternAtom_windows)
  then have "hardkeys_grab_zoom_keys st args = Return PyNone ?st' \<and>
     (windows srv (xid gw) = None \<longrightarrow>
        fst (XChangeProperty (snd (XInternAtom srv zoom_key_name False)) (xid gw)
               (fst (XInternAtom srv zoom_key_name False)) XA_INTEGER 32 PropModeReplace
               [if grab \<noteq> 0 then 1 else 0]) = Some BadWindow \<and>
        zoom_key_property ?st' gw = None)"
    using call_succeeds [OF assms]
    by (simp add: XChangeProperty_no_window XInternAtom_windows)
  then show ?thesis
    unfolding zoom_key_write_def .
qed

theorem grab_zoom_keys_returns_none_witness:
  "hardkeys_grab_zoom_keys ex_state_no_window [ex_widget, PyBoolObj True] =
     Return PyNone
       \<lparr>PyGObject_Type = Some GObject_Type,
        displays = [0 \<mapsto> \<lparr>atoms = [''WM_NAME'', ''_HILDON_ZOOM_KEY_ATOM''],
                            windows = Map.empty\<rparr>]\<rparr> \<and>
   fst (XChangeProperty (snd (XInternAtom ex_server_no_window zoom_key_name False)) 7
          (fst (XInternAtom ex_server_no_window zoom_key_name False)) XA_INTEGER 32
          PropModeReplace [1]) = Some BadWindow \<and>
   zoom_key_property
     \<lparr>PyGObject_Type = Some GObject_Type,
      displays = [0 \<mapsto> \<lparr>atoms = [''WM_NAME'', ''_HILDON_ZOOM_KEY_ATOM''],
                          windows = Map.empty\<rparr>]\<rparr> ex_window = None"
  using grab_zoom_keys_returns_none [of "[ex_widget, PyBoolObj True]" ex_state_no_window
      GtkWidget_Type "\<lparr>window = Some ex_window\<rparr>" 1 ex_window
      ex_server_no_window]
  by (simp add: ex_defs PyArg_ParseTuple_O_i_def XInternAtom_def XChangeProperty_def
      zoom_key_name_def)

text \<open>
  Claim C4 as stated fails for a widget that is not realized: the call passes argument
  checking, and then reads the display and the window id through a NULL \<open>window\<close>;
  it does not return \<open>None\<close>.
\<close>
theorem unrealized_widget_passes_check:
  "PyArg_ParseTuple_O_i [ex_widget_unrealized, PyBoolObj True] (PyGObject_Type ex_state) =
     Parsed ex_widget_unrealized 1 \<and>
   hardkeys_grab_zoom_keys ex_state [ex_widget_unrealized, PyBoolObj True] = Undefined"
  by (simp add: hardkeys_grab_zoom_keys_def PyArg_ParseTuple_O_i_def ex_defs)

text \<open>
  Claim C5. On a realized widget, whatever object is passed as \<open>grab\<close>, the first call
  either returns \<open>None\<close> or raises, and a second call with the same arguments, made
  in the state the first one left, has the same result and leaves that same state: the
  property has the value it had after one call.
\<close>
theorem grab_zoom_keys_idempotent:
  assumes "PyGObject_Type st = Some t" and "PyType_IsSubtype ty t"
    and "window wd = Some gw" and "displays st (xdisplay gw) = Some srv"
  shows "\<exists>st'. (hardkeys_grab_zoom_keys st [PyGObject ty (GtkWidget wd), b] = Return PyNone st' \<or>
            (\<exists>e. hardkeys_grab_zoom_keys st [PyGObject ty (GtkWidget wd), b] = Raise e st')) \<and>
     hardkeys_grab_zoom_keys st' [PyGObject ty (GtkWidget wd), b] =
       hardkeys_grab_zoom_keys st [PyGObject ty (GtkWidget wd), b] \<and>
     zoom_key_property st' gw =
       (case convert_i b of
          Inl e \<Rightarrow> zoom_key_property st gw
        | Inr grab \<Rightarrow>
            XGetWindowProperty (zoom_key_write srv (xid gw) grab) (xid gw)
              (fst (XInternAtom srv zoom_key_name False)))"
proof (cases "convert_i b")
  case (Inl e)
  with assms(1,2) have "hardkeys_grab_zoom_keys st [PyGObject ty (GtkWidget wd), b] = Raise e st"
    by (simp add: hardkeys_grab_zoom_keys_def PyArg_ParseTuple_O_i_def)
  with Inl show ?thesis by auto
next
  case (Inr grab)
  let ?args = "[PyGObject ty (GtkWidget wd), b]"
  let ?st' = "st\<lparr>displays := (displays st)(xdisplay gw \<mapsto> zoom_key_write srv (xid gw) grab)\<rparr>"
  have p: "PyArg_ParseTuple_O_i ?args (PyGObject_Type st) = Parsed (PyGObject ty (GtkWidget wd)) grab"
    by (rule parse_two [OF assms(1,2) Inr])
  have 1: "hardkeys_grab_zoom_keys st ?args = Return PyNone ?st'"
    by (rule call_succeeds [OF p assms(3,4)])
  have p': "PyArg_ParseTuple_O_i ?args (PyGObject_Type ?st') =
      Parsed (PyGObject ty (GtkWidget wd)) grab"
    using p by simp
  have d: "displays ?st' (xdisplay gw) = Some (zoom_key_write srv (xid gw) grab)"
    by simp
  have 2: "hardkeys_grab_zoom_keys ?st' ?args = Return PyNone ?st'"
    using call_succeeds [OF p' assms(3) d] by (simp add: zoom_key_write_twice)
  have 3: "zoom_key_property ?st' gw =
      XGetWindowProperty (zoom_key_write srv (xid gw) grab) (xid gw)
        (fst (XInternAtom srv zoom_key_name False))"
    by (rule zoom_key_property_after [OF assms(4)])
  from 1 2 3 Inr show ?thesis by auto
qed

theorem grab_zoom_keys_idempotent_witness:
  "\<exists>st'. (hardkeys_grab_zoom_keys ex_state [ex_widget, PyIntObj 5] = Return PyNone st' \<or>
          (\<exists>e. hardkeys_grab_zoom_keys ex_state [ex_widget, PyIntObj 5] = Raise e st')) \<and>
     hardkeys_grab_zoom_keys st' [ex_widget, PyIntObj 5] =
       hardkeys_grab_zoom_keys ex_state [ex_widget, PyIntObj 5] \<and>
     zoom_key_property st' ex_window =
       XGetWindowProperty (zoom_key_write ex_server 7 5) 7
         (fst (XInternAtom ex_server zoom_key_name False))"
  using grab_zoom_keys_idempotent [of ex_state GObject_Type GtkWidget_Type
      "\<lparr>window = Some ex_window\<rparr>" ex_window ex_server "PyIntObj 5"]
  by (simp add: ex_defs)

text \<open>
  Claim C6. Whatever the window's properties were before (the named one may have had
  any type, format and contents), a call that passes argument checking leaves the
  display as one \<open>XChangeProperty\<close> request to the atom of
  \<open>_HILDON_ZOOM_KEY_ATOM\<close> leaves it, with type \<open>XA_INTEGER\<close>, format 32, mode
  \<open>PropModeReplace\<close> and a single item that is 0 or 1; the property then reads as
  exactly that one-element integer array.
\<close>
theorem grab_zoom_keys_property_format:
  assumes "PyArg_ParseTuple_O_i args (PyGObject_Type st) =
             Parsed (PyGObject ty (GtkWidget wd)) grab"
    and "window wd = Some gw" and "displays st (xdisplay gw) = Some srv"
    and "windows srv (xid gw) = Some props"
  shows "\<exists>st' val.
     hardkeys_grab_zoom_keys st args = Return PyNone st' \<and>
     (val = 0 \<or> val = 1) \<and>
     displays st' (xdisplay gw) =
       Some (snd (XChangeProperty (snd (XInternAtom srv zoom_key_name False)) (xid gw)
                    (fst (XInternAtom srv zoom_key_name False)) XA_INTEGER 32
                    PropModeReplace [val])) \<and>
     zoom_key_property st' gw =
       Some \<lparr>prop_type = XA_INTEGER, prop_format = 32, prop_data = [val]\<rparr>"
proof -
  let ?val = "if grab \<noteq> 0 then 1 else 0 :: 32 word"
  let ?st' = "st\<lparr>displays := (displays st)(xdisplay gw \<mapsto> zoom_key_write srv (xid gw) grab)\<rparr>"
  have "hardkeys_grab_zoom_keys st args = Return PyNone ?st'"
    by (rule call_succeeds [OF assms(1-3)])
  moreover have "?val = 0 \<or> ?val = 1" by simp
  moreover have "displays ?st' (xdisplay gw) =
       Some (snd (XChangeProperty (snd (XInternAtom srv zoom_key_name False)) (xid gw)
                    (fst (XInternAtom srv zoom_key_name False)) XA_INTEGER 32
                    PropModeReplace [?val]))"
    by (simp add: zoom_key_write_def)
  moreover have "zoom_key_property ?st' gw =
       Some \<lparr>prop_type = XA_INTEGER, prop_format = 32, prop_data = [?val]\<rparr>"
    unfolding zoom_key_property_after [OF assms(3)]
    by (rule zoom_key_write_property [OF assms(4)])
  ultimately show ?thesis by blast
qed

theorem grab_zoom_keys_property_format_witness:
  "\<exists>st' val.
     hardkeys_grab_zoom_keys ex_state_prior [ex_widget_prior, PyIntObj 3] = Return PyNone st' \<and>
     (val = 0 \<or> val = 1) \<and>
     displays st' 1 =
       Some (snd (XChangeProperty (snd (XInternAtom ex_server_prior zoom_key_name False)) 9
                    (fst (XInternAtom ex_server_prior zoom_key_name False)) XA_INTEGER 32
                    PropModeReplace [val])) \<and>
     zoom_key_property st' ex_window_prior =
       Some \<lparr>prop_type = XA_INTEGER, prop_format = 32, prop_data = [val]\<rparr>"
  using grab_zoom_keys_property_format [of "[ex_widget_prior, PyIntObj 3]" ex_state_prior
      GtkWidget_Type "\<lparr>window = Some ex_window_prior\<rparr>" 3 ex_window_prior ex_server_prior
      "[2 \<mapsto> \<lparr>prop_type = 31, prop_format = 8, prop_data = [104, 105]\<rparr>]"]
  by (simp add: ex_defs PyArg_ParseTuple_O_i_def)

text \<open>
  Claim C9, as the code has it. The flag is a C \<open>int\<close>: every Python \<open>int\<close>, and
  every \<open>long\<close> that fits a C \<open>long\<close>, is accepted, and the value written is 1
  exactly when the integer is not zero and 0 when it is zero.
\<close>
theorem grab_zoom_keys_any_integer:
  assumes "PyGObject_Type st = Some t" and "PyType_IsSubtype ty t"
    and "window wd = Some gw" and "displays st (xdisplay gw) = Some srv"
    and "windows srv (xid gw) = Some props"
  shows "(\<exists>st'. hardkeys_grab_zoom_keys st [PyGObject ty (GtkWidget wd), PyIntObj n] =
            Return PyNone st' \<and>
          zoom_key_property st' gw =
            Some \<lparr>prop_type = XA_INTEGER, prop_format = 32,
                  prop_data = [if n = 0 then 0 else 1]\<rparr>) \<and>
     (LONG_MIN \<le> k \<and> k \<le> LONG_MAX \<longrightarrow>
       (\<exists>st'. hardkeys_grab_zoom_keys st [PyGObject ty (GtkWidget wd), PyLongObj k] =
            Return PyNone st' \<and>
          zoom_key_property st' gw =
            Some \<lparr>prop_type = XA_INTEGER, prop_format = 32,
                  prop_data = [if k = 0 then 0 else 1]\<rparr>))"
proof -
  have *: "\<exists>st'. hardkeys_grab_zoom_keys st [PyGObject ty (GtkWidget wd), b] =
            Return PyNone st' \<and>
          zoom_key_property st' gw =
            Some \<lparr>prop_type = XA_INTEGER, prop_format = 32,
                  prop_data = [if g = 0 then 0 else 1]\<rparr>"
    if "convert_i b = Inr g" for b g
  proof -
    have p: "PyArg_ParseTuple_O_i [PyGObject ty (GtkWidget wd), b] (PyGObject_Type st) =
        Parsed (PyGObject ty (GtkWidget wd)) g"
      by (rule parse_two [OF assms(1,2) that])
    have "zoom_key_property
            (st\<lparr>displays := (displays st)(xdisplay gw \<mapsto> zoom_key_write srv (xid gw) g)\<rparr>) gw =
          Some \<lparr>prop_type = XA_INTEGER, prop_format = 32, prop_data = [if g = 0 then 0 else 1]\<rparr>"
      unfolding zoom_key_property_after [OF assms(4)]
      using zoom_key_write_property [OF assms(5), of g] by simp
    with call_succeeds [OF p assms(3,4)] show ?thesis by blast
  qed
  have "convert_i (PyIntObj n) = Inr n" by simp
  from * [OF this] have 1: "\<exists>st'. hardkeys_grab_zoom_keys st [PyGObject ty (GtkWidget wd), PyIntObj n] =
            Return PyNone st' \<and>
          zoom_key_property st' gw =
            Some \<lparr>prop_type = XA_INTEGER, prop_format = 32,
                  prop_data = [if n = 0 then 0 else 1]\<rparr>" .
  have 2: "\<exists>st'. hardkeys_grab_zoom_keys st [PyGObject ty (GtkWidget wd), PyLongObj k] =
            Return PyNone st' \<and>
          zoom_key_property st' gw =
            Some \<lparr>prop_type = XA_INTEGER, prop_format = 32,
                  prop_data = [if k = 0 then 0 else 1]\<rparr>"
    if r: "LONG_MIN \<le> k" "k \<le> LONG_MAX"
  proof -
    have "convert_i (PyLongObj k) = Inr (word_of_int k)"
      using r by simp
    from * [OF this] show ?thesis
      by (simp add: word_of_int_long_zero [OF r])
  qed
  from 1 2 show ?thesis by blast
qed

theorem grab_zoom_keys_any_integer_witness:
  "(\<exists>st'. hardkeys_grab_zoom_keys ex_state [ex_widget, PyIntObj (- 5)] = Return PyNone st' \<and>
      zoom_key_property st' ex_window =
        Some \<lparr>prop_type = XA_INTEGER, prop_format = 32, prop_data = [1]\<rparr>) \<and>
   (\<exists>st'. hardkeys_grab_zoom_keys ex_state [ex_widget, PyLongObj 0] = Return PyNone st' \<and>
      zoom_key_property st' ex_window =
        Some \<lparr>prop_type = XA_INTEGER, prop_format = 32, prop_data = [0]\<rparr>)"
  using grab_zoom_keys_any_integer [of ex_state GObject_Type GtkWidget_Type
      "\<lparr>window = Some ex_window\<rparr>" ex_window ex_server Map.empty "- 5" 0]
  by (simp add: ex_defs LONG_MIN_def LONG_MAX_def)

text \<open>
  Claim C9 as stated fails for an integer beyond the C range: \<open>2^31\<close> is not zero, yet
  the parser raises \<open>OverflowError\<close> and nothing is written.
\<close>
theorem grab_zoom_keys_long_overflow:
  "hardkeys_grab_zoom_keys ex_state [ex_widget, PyLongObj 2147483648] =
     Raise OverflowError ex_state"
  by (simp add: hardkeys_grab_zoom_keys_def PyArg_ParseTuple_O_i_def LONG_MAX_def ex_defs)

text \<open>
  Claim C10. Take two calls that return, in any two process states, on any two realized
  widgets whose windows exist, with the same object as \<open>grab\<close>. Then the two windows
  end with the same value of the named property: it depends on \<open>grab\<close> alone, not on
  the widget, on the property's earlier value, or on what happened before.
\<close>
theorem grab_zoom_keys_value_depends_on_grab_only:
  assumes "PyGObject_Type st1 = Some t1" and "PyType_IsSubtype ty1 t1"
    and "window wd1 = Some gw1" and "displays st1 (xdisplay gw1) = Some srv1"
    and "windows srv1 (xid gw1) = Some props1"
    and "PyGObject_Type st2 = Some t2" and "PyType_IsSubtype ty2 t2"
    and "window wd2 = Some gw2" and "displays st2 (xdisplay gw2) = Some srv2"
    and "windows srv2 (xid gw2) = Some props2"
    and "hardkeys_grab_zoom_keys st1 [PyGObject ty1 (GtkWidget wd1), b] = Return r1 st1'"
    and "hardkeys_grab_zoom_keys st2 [PyGObject ty2 (GtkWidget wd2), b] = Return r2 st2'"
  shows "\<exists>v. zoom_key_property st1' gw1 = Some v \<and> zoom_key_property st2' gw2 = Some v"
proof -
  from call_returns [OF assms(11)] obtain g where g: "convert_i b = Inr g"
    using assms(1) by (auto simp add: PyArg_ParseTuple_O_i_def split: if_splits sum.splits)
  have p1: "PyArg_ParseTuple_O_i [PyGObject ty1 (GtkWidget wd1), b] (PyGObject_Type st1) =
      Parsed (PyGObject ty1 (GtkWidget wd1)) g"
    by (rule parse_two [OF assms(1,2) g])
  have p2: "PyArg_ParseTuple_O_i [PyGObject ty2 (GtkWidget wd2), b] (PyGObject_Type st2) =
      Parsed (PyGObject ty2 (GtkWidget wd2)) g"
    by (rule parse_two [OF assms(6,7) g])
  let ?v = "\<lparr>prop_type = XA_INTEGER, prop_format = 32, prop_data = [if g \<noteq> 0 then 1 else 0]\<rparr>"
  have "zoom_key_property st1' gw1 = Some ?v"
    using call_succeeds [OF p1 assms(3,4)] assms(11)
      zoom_key_property_after [OF assms(4), of g] zoom_key_write_property [OF assms(5), of g]
    by simp
  moreover have "zoom_key_property st2' gw2 = Some ?v"
    using call_succeeds [OF p2 assms(8,9)] assms(12)
      zoom_key_property_after [OF assms(9), of g] zoom_key_write_property [OF assms(10), of g]
    by simp
  ultimately show ?thesis by blast
qed

theorem grab_zoom_keys_value_depends_on_grab_only_witness:
  "\<exists>v. zoom_key_property ex_state_after ex_window = Some v \<and>
       zoom_key_property ex_state_prior_after ex_window_prior = Some v"
  using grab_zoom_keys_value_depends_on_grab_only [of ex_state GObject_Type GtkWidget_Type
      "\<lparr>window = Some ex_window\<rparr>" ex_window ex_server Map.empty
      ex_state_prior GObject_Type GtkWidget_Type
      "\<lparr>window = Some ex_window_prior\<rparr>" ex_window_prior ex_server_prior
      "[2 \<mapsto> \<lparr>prop_type = 31, prop_format = 8, prop_data = [104, 105]\<rparr>]"
      "PyBoolObj True" PyNone ex_state_after PyNone ex_state_prior_after]
    ex_call ex_call_prior
  by (simp add: ex_defs)

text \<open>
  Claim C7, as the code has it, for the state of the display servers and of the module
  (interpreter state such as reference counts is not part of \<open>process_state\<close>, and
  nothing is said about it). Within that state, a call that returns changes nothing
  but this: on the display of the given window, the named property of that window, and
  the atom table, which gains the name \<open>_HILDON_ZOOM_KEY_ATOM\<close> when the server did
  not have it (\<open>XInternAtom\<close> is called with \<open>only_if_exists = 0\<close>). The module's
  type reference, every other display, the set of windows, and every property of
  another window or under another atom are as before.
\<close>
theorem grab_zoom_keys_frame:
  assumes "hardkeys_grab_zoom_keys st args = Return r st'"
  shows "\<exists>ty wd b gw srv srv'.
     args = [PyGObject ty (GtkWidget wd), b] \<and> window wd = Some gw \<and>
     displays st (xdisplay gw) = Some srv \<and> displays st' (xdisplay gw) = Some srv' \<and>
     r = PyNone \<and>
     PyGObject_Type st' = PyGObject_Type st \<and>
     (\<forall>d. d \<noteq> xdisplay gw \<longrightarrow> displays st' d = displays st d) \<and>
     atoms srv' = (if find_atom (atoms srv) zoom_key_name = None
                   then atoms srv @ [zoom_key_name] else atoms srv) \<and>
     dom (windows srv') = dom (windows srv) \<and>
     (\<forall>w p. w \<noteq> xid gw \<or> find_atom (atoms srv') zoom_key_name \<noteq> Some p \<longrightarrow>
        XGetWindowProperty srv' w p = XGetWindowProperty srv w p)"
proof -
  from call_returns [OF assms] obtain ty wd grab gw srv where
    p: "PyArg_ParseTuple_O_i args (PyGObject_Type st) = Parsed (PyGObject ty (GtkWidget wd)) grab"
    and w: "window wd = Some gw" and d: "displays st (xdisplay gw) = Some srv"
    by blast
  from p obtain b where a: "args = [PyGObject ty (GtkWidget wd), b]"
    by (auto simp add: PyArg_ParseTuple_O_i_def split: list.splits option.splits if_splits sum.splits)
  let ?srv' = "zoom_key_write srv (xid gw) grab"
  have st': "st' = st\<lparr>displays := (displays st)(xdisplay gw \<mapsto> ?srv')\<rparr>" and r: "r = PyNone"
    using call_succeeds [OF p w d] assms by simp_all
  have other: "XGetWindowProperty ?srv' w p = XGetWindowProperty srv w p"
    if "w \<noteq> xid gw \<or> find_atom (atoms ?srv') zoom_key_name \<noteq> Some p" for w p
    using that by (intro zoom_key_write_other) (auto simp add: zoom_key_write_find_atom)
  have "displays st' (xdisplay gw) = Some ?srv'"
    and "PyGObject_Type st' = PyGObject_Type st"
    and "\<forall>d. d \<noteq> xdisplay gw \<longrightarrow> displays st' d = displays st d"
    by (simp_all add: st')
  with a w d r other zoom_key_write_atoms [of srv "xid gw" grab]
    zoom_key_write_dom [of srv "xid gw" grab]
  show ?thesis by blast
qed

theorem grab_zoom_keys_frame_witness:
  "\<exists>ty wd b gw srv srv'.
     [ex_widget, PyBoolObj True] = [PyGObject ty (GtkWidget wd), b] \<and> window wd = Some gw \<and>
     displays ex_state (xdisplay gw) = Some srv \<and>
     displays ex_state_after (xdisplay gw) = Some srv' \<and>
     PyNone = PyNone \<and>
     PyGObject_Type ex_state_after = PyGObject_Type ex_state \<and>
     (\<forall>d. d \<noteq> xdisplay gw \<longrightarrow> displays ex_state_after d = displays ex_state d) \<and>
     atoms srv' = (if find_atom (atoms srv) zoom_key_name = None
                   then atoms srv @ [zoom_key_name] else atoms srv) \<and>
     dom (windows srv') = dom (windows srv) \<and>
     (\<forall>w p. w \<noteq> xid gw \<or> find_atom (atoms srv') zoom_key_name \<noteq> Some p \<longrightarrow>
        XGetWindowProperty srv' w p = XGetWindowProperty srv w p)"
  by (rule grab_zoom_keys_frame [OF ex_call])

text \<open>
  Claim C7 as stated fails on a server that has not seen the name yet: besides the
  property, the server's atom table changes.
\<close>
theorem grab_zoom_keys_interns_atom:
  "hardkeys_grab_zoom_keys ex_state [ex_widget, PyBoolObj True] = Return PyNone ex_state_after \<and>
   map_option atoms (displays ex_state 0) = Some [''WM_NAME''] \<and>
   map_option atoms (displays ex_state_after 0) = Some [''WM_NAME'', ''_HILDON_ZOOM_KEY_ATOM'']"
  by (simp add: hardkeys_grab_zoom_keys_def PyArg_ParseTuple_O_i_def XInternAtom_def
      XChangeProperty_def gdk_x11_drawable_get_xdisplay_def GDK_WINDOW_XID_def
      zoom_key_name_def XA_INTEGER_def ex_defs numeral_2_eq_2 [symmetric])




end
